theory Spec2Isabelle
  imports Complex_Main "HOL-Library.Sublist"
begin

section \<open>Data model (frontend/types.ts)\<close>

text \<open>
  The interfaces of \<^verbatim>\<open>types.ts\<close> as records. An optional field (\<^verbatim>\<open>imageUrl?: string\<close>)
  is an \<open>option\<close>, with \<open>None\<close> for \<^verbatim>\<open>undefined\<close>. The fields \<^verbatim>\<open>id\<close> and \<^verbatim>\<open>text\<close> of
  \<^verbatim>\<open>ComicPanelData\<close> are written \<open>id_panel\<close> and \<open>text_panel\<close>.
\<close>

datatype gender = boy | girl | neutral

record KidProfile =
  name :: string
  gender :: gender
  skinTone :: string
  hairColor :: string
  eyeColor :: string
  favoriteColor :: string
  dream :: string
  personality :: string
  archetype :: "string option"
  photoUrl :: "string option"
  artStyle :: "string option"

record ComicPanelData =
  id_panel :: string
  text_panel :: string
  imagePrompt :: string
  imageUrl :: "string option"
  isGenerating :: "bool option"

record Story =
  title :: string
  foreword :: string
  characterDescription :: string
  coverImagePrompt :: string
  coverImageUrl :: "string option"
  panels :: "ComicPanelData list"

section \<open>Pagination (MainPage)\<close>

text \<open>
  \<^verbatim>\<open>const panelCount = story?.panels.length || 10;\<close>
  The count is 10 when there is no story, and also when the story has no panel
  (\<^verbatim>\<open>0 || 10\<close> is 10).
\<close>

definition panelCount :: "Story option \<Rightarrow> nat" where
  "panelCount story =
     (case story of
        None \<Rightarrow> 10
      | Some s \<Rightarrow> (if length (panels s) = 0 then 10 else length (panels s)))"

text \<open>
  \<^verbatim>\<open>const spreadsNeeded = Math.ceil((panelCount + 2) / 2);\<close>
  \<^verbatim>\<open>const totalStates = 2 + spreadsNeeded;\<close>
  The division is exact on the reals for every array length, so the double of the
  source is read as a real.
\<close>

definition spreadsNeeded :: "Story option \<Rightarrow> nat" where
  "spreadsNeeded story = nat \<lceil>(real (panelCount story) + 2) / 2\<rceil>"

definition totalStates :: "Story option \<Rightarrow> nat" where
  "totalStates story = 2 + spreadsNeeded story"

text \<open>
  What one page of a spread shows: the introduction, the closing page, or the
  \<^verbatim>\<open>ComicPanel\<close> of \<^verbatim>\<open>story.panels[k]\<close>. What the book container shows for a
  value of \<^verbatim>\<open>currentPage\<close> is the list of the blocks whose guard holds, in the order of
  the JSX.
\<close>

datatype slot = Foreword | Closing | PanelAt int

datatype block = FrontCover | Spread slot slot | BackCover

definition leftPage :: "int \<Rightarrow> slot" where
  "leftPage currentPage =
     (if currentPage = 1 then Foreword else PanelAt ((currentPage - 1) * 2 - 1))"

definition rightPage :: "Story option \<Rightarrow> int \<Rightarrow> slot" where
  "rightPage story currentPage =
     (if currentPage = int (totalStates story) - 2 then Closing
      else PanelAt ((currentPage - 1) * 2))"

text \<open>
  The book is rendered only when \<^verbatim>\<open>story\<close> is not null, so \<open>book\<close> takes a story.
\<close>

definition book :: "Story \<Rightarrow> int \<Rightarrow> block list" where
  "book s currentPage =
     (if currentPage = 0 then [FrontCover] else []) @
     (if currentPage > 0 \<and> currentPage < int (totalStates (Some s)) - 1
      then [Spread (leftPage currentPage) (rightPage (Some s) currentPage)] else []) @
     (if currentPage = int (totalStates (Some s)) - 1 then [BackCover] else [])"

text \<open>
  \<^verbatim>\<open>story.panels[k]\<close>: an array read in JavaScript is \<^verbatim>\<open>undefined\<close> out of range.
\<close>

definition panelProp :: "Story \<Rightarrow> int \<Rightarrow> ComicPanelData option" where
  "panelProp s k =
     (if 0 \<le> k \<and> k < int (length (panels s)) then Some (panels s ! nat k) else None)"

text \<open>
  \<^verbatim>\<open>setCurrentPage(p => Math.max(0, Math.min(totalStates - 1, p + dir)))\<close>
\<close>

definition navigate :: "Story option \<Rightarrow> int \<Rightarrow> int \<Rightarrow> int" where
  "navigate story dir p = max 0 (min (int (totalStates story) - 1) (p + dir))"

text \<open>
  The slots of a block, left page before right page. The render of \<^verbatim>\<open>ComicPanel\<close>
  starts by reading \<^verbatim>\<open>panel.imageUrl\<close>: when the \<^verbatim>\<open>panel\<close> it is given is
  \<^verbatim>\<open>undefined\<close> the read throws a \<^verbatim>\<open>TypeError\<close>, and nothing above \<^verbatim>\<open>MainPage\<close>
  catches it (\<^verbatim>\<open>App\<close> and \<^verbatim>\<open>index.tsx\<close> have no error boundary). \<open>renderBook\<close> is
  what the book container renders for a value of \<^verbatim>\<open>currentPage\<close>: \<open>None\<close> when the
  render of one of its panels throws.
\<close>

fun blockSlots :: "block \<Rightarrow> slot list" where
  "blockSlots FrontCover = []"
| "blockSlots (Spread l r) = [l, r]"
| "blockSlots BackCover = []"

fun slotRenders :: "Story \<Rightarrow> slot \<Rightarrow> bool" where
  "slotRenders s (PanelAt k) = (panelProp s k \<noteq> None)"
| "slotRenders s Foreword = True"
| "slotRenders s Closing = True"

definition renderBook :: "Story \<Rightarrow> int \<Rightarrow> block list option" where
  "renderBook s currentPage =
     (if list_all (slotRenders s) (concat (map blockSlots (book s currentPage)))
      then Some (book s currentPage) else None)"

text \<open>Stories used as concrete inputs.\<close>

definition panelN :: "nat \<Rightarrow> ComicPanelData" where
  "panelN k = \<lparr>id_panel = ''p'' @ replicate k CHR ''i'', text_panel = ''Once upon a time'',
     imagePrompt = ''a castle'', imageUrl = Some ''data:image/png;base64,AAAA'',
     isGenerating = Some False\<rparr>"

definition storyN :: "nat \<Rightarrow> Story" where
  "storyN n = \<lparr>title = ''Legend'', foreword = ''For Ada'', characterDescription = ''a girl'',
     coverImagePrompt = ''cover'', coverImageUrl = None, panels = map panelN [0..<n]\<rparr>"

section \<open>JavaScript helpers\<close>

text \<open>
  \<^verbatim>\<open>s.startsWith(p)\<close>, \<^verbatim>\<open>s.split(',')\<close> and \<^verbatim>\<open>s.split(',')[1]\<close>, which is
  \<^verbatim>\<open>undefined\<close> when the string has no comma.
\<close>

definition startsWith :: "string \<Rightarrow> string \<Rightarrow> bool" where
  "startsWith s p = prefix p s"

fun split_on :: "char \<Rightarrow> string \<Rightarrow> string list" where
  "split_on c [] = [[]]"
| "split_on c (x # xs) =
     (if x = c then [] # split_on c xs
      else (case split_on c xs of [] \<Rightarrow> [[x]] | y # ys \<Rightarrow> (x # y) # ys))"

definition split_second :: "string \<Rightarrow> string option" where
  "split_second s = (case split_on CHR '','' s of _ # y # _ \<Rightarrow> Some y | _ \<Rightarrow> None)"

text \<open>
  Truthiness: \<^verbatim>\<open>undefined\<close>, \<^verbatim>\<open>null\<close>, the empty string and the number 0 are falsy.
  \<^verbatim>\<open>x || ''\<close> and \<^verbatim>\<open>x || undefined\<close> on a nullable string. A story id is an
  integer: \<^verbatim>\<open>NaN\<close>, falsy as well, does not come out of a JSON body.
\<close>

definition truthy :: "string option \<Rightarrow> bool" where
  "truthy x = (case x of None \<Rightarrow> False | Some s \<Rightarrow> s \<noteq> [])"

definition truthy_num :: "int option \<Rightarrow> bool" where
  "truthy_num x = (case x of None \<Rightarrow> False | Some n \<Rightarrow> n \<noteq> 0)"

definition or_empty :: "string option \<Rightarrow> string" where
  "or_empty x = (case x of None \<Rightarrow> [] | Some s \<Rightarrow> s)"

definition or_undefined :: "string option \<Rightarrow> string option" where
  "or_undefined x = (if truthy x then x else None)"

definition or_else :: "string option \<Rightarrow> string \<Rightarrow> string" where
  "or_else x d = (case x of None \<Rightarrow> d | Some s \<Rightarrow> (if s = [] then d else s))"

text \<open>
  \<^verbatim>\<open>String(n)\<close> and the \<^verbatim>\<open>${n}\<close> of a template literal, for an integer: its decimal
  digits, with a minus sign when negative. The numbers of the source are doubles, and
  this is what they print for the safe integers (of magnitude at most
  \<^verbatim>\<open>Number.MAX_SAFE_INTEGER\<close>, that is \<open>2^53 - 1\<close>); beyond them a double prints its
  shortest digits that read back, and an exponent from \<^verbatim>\<open>1e21\<close> on. Array indices are
  safe integers; what is stated of the printed form of a story id assumes \<open>safe_integer\<close>.
\<close>

definition safe_integer :: "int \<Rightarrow> bool" where
  "safe_integer n = (abs n \<le> 9007199254740991)"

definition digit_char :: "nat \<Rightarrow> char" where
  "digit_char d = ''0123456789'' ! d"

fun string_of_nat :: "nat \<Rightarrow> string" where
  "string_of_nat n =
     (if n < 10 then [digit_char n]
      else string_of_nat (n div 10) @ [digit_char (n mod 10)])"

declare string_of_nat.simps [simp del]

definition String_of :: "int \<Rightarrow> string" where
  "String_of n = (if n < 0 then CHR ''-'' # string_of_nat (nat (- n)) else string_of_nat (nat n))"

text \<open>
  \<^verbatim>\<open>xs.findIndex(P)\<close>: the index of the first element that satisfies \<open>P\<close>, or \<open>-1\<close>.
\<close>

fun findIndex :: "('a \<Rightarrow> bool) \<Rightarrow> 'a list \<Rightarrow> int" where
  "findIndex P [] = - 1"
| "findIndex P (x # xs) =
     (if P x then 0 else (let r = findIndex P xs in if r = - 1 then - 1 else r + 1))"

section \<open>The backend API (services/backendApi)\<close>

text \<open>
  The response interfaces. A field of type \<^verbatim>\<open>string | null\<close> is an \<open>option\<close>. Fields
  whose name an interface of \<^verbatim>\<open>types.ts\<close> or another response already has carry the
  suffix \<open>_resp\<close> (\<open>_api\<close> in the request profile, \<open>_story\<close> for the story's id).
\<close>

record KidProfileResponse =
  id_profile :: int
  name_resp :: string
  gender_resp :: gender
  skin_tone_resp :: string
  hair_color_resp :: string
  eye_color_resp :: string
  favorite_color_resp :: string
  dream_resp :: "string option"
  archetype_resp :: "string option"
  art_style_resp :: "string option"
  created_at_profile :: string

record PanelResponse =
  id_resp :: int
  panel_order :: int
  text_resp :: string
  image_prompt :: "string option"
  image_url :: "string option"

record StoryDetailResponse =
  id_story :: int
  title_resp :: "string option"
  foreword_resp :: "string option"
  character_description :: "string option"
  cover_image_prompt :: "string option"
  cover_image_url :: "string option"
  is_unlocked :: bool
  created_at :: string
  updated_at :: string
  profile_resp :: KidProfileResponse
  panels_resp :: "PanelResponse list"

record KidProfileForGeneration =
  name_api :: string
  gender_api :: gender
  skin_tone :: string
  hair_color :: string
  eye_color :: string
  favorite_color :: string
  dream_api :: "string option"
  archetype_api :: "string option"
  art_style :: "string option"
  photo_base64 :: "string option"

record GenerateAndSaveStoryResponse =
  story_resp :: StoryDetailResponse

text \<open>
  What is thrown: an \<^verbatim>\<open>Error\<close> with its message, or any other value. What a call of
  \<^verbatim>\<open>fetch\<close> followed by the reading of the body comes to: a rejection (of \<^verbatim>\<open>fetch\<close>
  or of \<^verbatim>\<open>response.json()\<close>), a response whose \<^verbatim>\<open>ok\<close> is false, with its
  \<^verbatim>\<open>statusText\<close> and the \<^verbatim>\<open>detail\<close> of its body when it has one, or a response whose
  \<^verbatim>\<open>ok\<close> is true, with its parsed body.
\<close>

datatype js_thrown = Error string | Thrown

datatype 'a outcome = Rejected js_thrown | NotOk string "string option" | Ok 'a

datatype body =
    NoBody
  | ProfileBody KidProfileForGeneration
  | ImageBody string
  | EditBody "string option" string string string "string option"

text \<open>
  The environment: the configured base address, and what the server answers to each
  request. \<open>edit_remote\<close> answers with the \<^verbatim>\<open>image_base64\<close> of the body, \<open>blob_remote\<close>
  with the data URL that the \<^verbatim>\<open>FileReader\<close> of \<^verbatim>\<open>urlToBase64\<close> reads.
\<close>

record env =
  VITE_API_BASE_URL :: "string option"
  generate_remote :: "KidProfileForGeneration \<Rightarrow> GenerateAndSaveStoryResponse outcome"
  edit_remote :: "body \<Rightarrow> string outcome"
  patch_remote :: "string \<Rightarrow> body \<Rightarrow> unit outcome"
  blob_remote :: "string \<Rightarrow> js_thrown + string"

definition API_BASE_URL :: "env \<Rightarrow> string" where
  "API_BASE_URL e = or_else (VITE_API_BASE_URL e) ''http://localhost:8000''"

definition API_BASE :: "env \<Rightarrow> string" where
  "API_BASE e = API_BASE_URL e @ ''/api''"

definition getImageUrl :: "env \<Rightarrow> string option \<Rightarrow> string option" where
  "getImageUrl e filename =
     (case filename of
        None \<Rightarrow> None
      | Some f \<Rightarrow>
          (if f = [] then None
           else if startsWith f ''data:'' \<or> startsWith f ''http'' then Some f
           else Some (API_BASE_URL e @ ''/images/'' @ f)))"

section \<open>The state and its effects\<close>

text \<open>
  The state of \<^verbatim>\<open>useStoryGenerator\<close> (\<open>story\<close>, \<open>savedStoryId\<close>) and of
  \<^verbatim>\<open>MainPage\<close> (\<open>view\<close>, \<open>profile\<close>, \<open>currentPage\<close>), with the log of what the
  code did to the outside, in order: requests sent, state setters of the hook called,
  notifications shown, console lines written.
\<close>

datatype AppState = ONBOARDING | GENERATING_SCRIPT | STORYBOARD

datatype event =
    Request string string body
  | SetStory Story
  | SetSavedStoryId int
  | ToastError string
  | ConsoleLog string
  | ConsoleError

record app =
  story :: "Story option"
  savedStoryId :: "int option"
  view :: AppState
  profile :: "KidProfile option"
  currentPage :: int
  events :: "event list"

definition emit :: "event \<Rightarrow> app \<Rightarrow> app" where
  "emit ev a = a\<lparr>events := events a @ [ev]\<rparr>"

definition setStory :: "Story \<Rightarrow> app \<Rightarrow> app" where
  "setStory s a = emit (SetStory s) (a\<lparr>story := Some s\<rparr>)"

definition setSavedStoryId :: "int \<Rightarrow> app \<Rightarrow> app" where
  "setSavedStoryId n a = emit (SetSavedStoryId n) (a\<lparr>savedStoryId := Some n\<rparr>)"

fun isToast :: "event \<Rightarrow> bool" where
  "isToast (ToastError m) = True"
| "isToast ev = False"

fun isRequest :: "event \<Rightarrow> bool" where
  "isRequest (Request m u b) = True"
| "isRequest ev = False"

fun isSetStory :: "event \<Rightarrow> bool" where
  "isSetStory (SetStory s) = True"
| "isSetStory ev = False"

section \<open>Requests (services/backendApi)\<close>

definition generateAndSaveStory ::
  "env \<Rightarrow> KidProfileForGeneration \<Rightarrow> app \<Rightarrow> (js_thrown + GenerateAndSaveStoryResponse) \<times> app" where
  "generateAndSaveStory e p a =
     (let a1 = emit (Request ''POST'' (API_BASE e @ ''/stories/generate'') (ProfileBody p)) a in
      case generate_remote e p of
        Rejected t \<Rightarrow> (Inl t, a1)
      | NotOk statusText detail \<Rightarrow>
          (Inl (Error (or_else detail (''Failed to generate story: '' @ statusText))), a1)
      | Ok r \<Rightarrow> (Inr r, a1))"

definition updatePanelImage ::
  "env \<Rightarrow> int \<Rightarrow> int \<Rightarrow> string \<Rightarrow> app \<Rightarrow> (js_thrown + unit) \<times> app" where
  "updatePanelImage e storyId panelOrder imageBase64 a =
     (let url = API_BASE e @ ''/stories/'' @ String_of storyId @ ''/panels/'' @ String_of panelOrder;
          a1 = emit (Request ''PATCH'' url (ImageBody imageBase64)) a in
      case patch_remote e url (ImageBody imageBase64) of
        Rejected t \<Rightarrow> (Inl t, a1)
      | NotOk statusText detail \<Rightarrow>
          (Inl (Error (''Failed to update panel image: '' @ statusText)), a1)
      | Ok u \<Rightarrow> (Inr (), a1))"

definition urlToBase64 :: "env \<Rightarrow> string \<Rightarrow> app \<Rightarrow> (js_thrown + string option) \<times> app" where
  "urlToBase64 e url a =
     (let a1 = emit (Request ''GET'' url NoBody) a in
      case blob_remote e url of
        Inl t \<Rightarrow> (Inl t, a1)
      | Inr dataUrl \<Rightarrow> (Inr (split_second dataUrl), a1))"

text \<open>
  The first step of \<^verbatim>\<open>editPanelImage\<close>, which gives \<^verbatim>\<open>pureBase64\<close> its value.
\<close>

definition pureBase64 :: "env \<Rightarrow> string \<Rightarrow> app \<Rightarrow> (js_thrown + string option) \<times> app" where
  "pureBase64 e imageSource a =
     (if startsWith imageSource ''data:'' then (Inr (split_second imageSource), a)
      else if startsWith imageSource ''http'' then urlToBase64 e imageSource a
      else (Inr (Some imageSource), a))"

definition editPanelImage ::
  "env \<Rightarrow> string \<Rightarrow> string \<Rightarrow> string \<Rightarrow> string \<Rightarrow> string option \<Rightarrow> app
     \<Rightarrow> (js_thrown + string) \<times> app" where
  "editPanelImage e imageSource editPrompt originalPrompt castGuide style a =
     (case pureBase64 e imageSource a of
        (Inl t, a1) \<Rightarrow> (Inl t, a1)
      | (Inr b64, a1) \<Rightarrow>
          (let b = EditBody b64 originalPrompt editPrompt castGuide style;
               a2 = emit (Request ''POST'' (API_BASE e @ ''/generate/edit-image'') b) a1 in
           case edit_remote e b of
             Rejected t \<Rightarrow> (Inl t, a2)
           | NotOk statusText detail \<Rightarrow>
               (Inl (Error (or_else detail (''Failed to edit image: '' @ statusText))), a2)
           | Ok image_base64 \<Rightarrow> (Inr (''data:image/png;base64,'' @ image_base64), a2)))"

section \<open>The story generator (hooks/useStoryGenerator)\<close>

text \<open>
  \<open>mapApiPanel\<close> is the function that \<^verbatim>\<open>mapApiStory\<close> maps over \<^verbatim>\<open>data.panels\<close>.
  In \<^verbatim>\<open>updatePanel\<close> the reads \<open>the (savedStoryId a)\<close> and \<open>the (imageUrl updated)\<close> are
  under the guard that makes both truthy.
\<close>

definition mapApiPanel :: "PanelResponse \<Rightarrow> ComicPanelData" where
  "mapApiPanel p =
     \<lparr>id_panel = String_of (id_resp p),
      text_panel = text_resp p,
      imagePrompt = or_empty (image_prompt p),
      imageUrl = or_undefined (image_url p),
      isGenerating = Some False\<rparr>"

definition mapApiStory :: "StoryDetailResponse \<Rightarrow> Story" where
  "mapApiStory data =
     \<lparr>title = or_empty (title_resp data),
      foreword = or_empty (foreword_resp data),
      characterDescription = or_empty (character_description data),
      coverImagePrompt = or_empty (cover_image_prompt data),
      coverImageUrl = or_undefined (cover_image_url data),
      panels = map mapApiPanel (panels_resp data)\<rparr>"

definition profileForApi :: "KidProfile \<Rightarrow> KidProfileForGeneration" where
  "profileForApi p =
     \<lparr>name_api = name p,
      gender_api = gender p,
      skin_tone = skinTone p,
      hair_color = hairColor p,
      eye_color = eyeColor p,
      favorite_color = favoriteColor p,
      dream_api = Some (dream p),
      archetype_api = archetype p,
      art_style = artStyle p,
      photo_base64 =
        (case photoUrl p of
           None \<Rightarrow> None
         | Some u \<Rightarrow> (if startsWith u ''data:'' then split_second u else None))\<rparr>"

definition generateStory :: "env \<Rightarrow> KidProfile \<Rightarrow> app \<Rightarrow> (js_thrown + unit) \<times> app" where
  "generateStory e p a =
     (case generateAndSaveStory e (profileForApi p) a of
        (Inl t, a1) \<Rightarrow> (Inl t, a1)
      | (Inr result, a1) \<Rightarrow>
          (Inr (),
           setStory (mapApiStory (story_resp result))
             (setSavedStoryId (id_story (story_resp result)) a1)))"

definition updatePanel :: "env \<Rightarrow> ComicPanelData \<Rightarrow> app \<Rightarrow> app" where
  "updatePanel e updated a =
     (case story a of
        None \<Rightarrow> a
      | Some s \<Rightarrow>
          (let panelOrder = findIndex (\<lambda>p. id_panel p = id_panel updated) (panels s);
               a1 = setStory
                      (s\<lparr>panels := map (\<lambda>p. if id_panel p = id_panel updated then updated else p)
                                      (panels s)\<rparr>) a in
           if truthy_num (savedStoryId a) \<and> panelOrder \<noteq> - 1 \<and> truthy (imageUrl updated)
           then
             (case updatePanelImage e (the (savedStoryId a)) panelOrder (the (imageUrl updated)) a1 of
                (Inr u, a2) \<Rightarrow>
                  emit (ConsoleLog (''Panel '' @ String_of panelOrder @ '' saved to backend'')) a2
              | (Inl err, a2) \<Rightarrow> emit ConsoleError a2)
           else a1))"

section \<open>The main page and the panel (components)\<close>

definition handleWizardComplete :: "env \<Rightarrow> KidProfile \<Rightarrow> app \<Rightarrow> app" where
  "handleWizardComplete e p a =
     (case generateStory e p (a\<lparr>profile := Some p, view := GENERATING_SCRIPT\<rparr>) of
        (Inr u, a1) \<Rightarrow> a1\<lparr>view := STORYBOARD\<rparr>
      | (Inl err, a1) \<Rightarrow>
          (let message = (case err of Error m \<Rightarrow> m | Thrown \<Rightarrow> ''Generation failed'')
           in (emit (ToastError message) a1)\<lparr>view := ONBOARDING\<rparr>))"

text \<open>
  The local state of a \<^verbatim>\<open>ComicPanel\<close>. \<^verbatim>\<open>handleEdit\<close> takes the \<^verbatim>\<open>onUpdate\<close> of its
  props as a function on the state. \<^verbatim>\<open>onUpdate\<close> is not awaited: the page passes
  \<^verbatim>\<open>updatePanel\<close>, which runs up to the sending of its request before \<^verbatim>\<open>handleEdit\<close>
  goes on; the console line that follows the answer is logged here at once.
\<close>

record panel_state =
  isEditing :: bool
  editPrompt :: string
  isProcessing :: bool

definition resolvedImageUrl :: "env \<Rightarrow> ComicPanelData \<Rightarrow> string option" where
  "resolvedImageUrl e panel =
     (if truthy (imageUrl panel)
      then (if startsWith (the (imageUrl panel)) ''data:'' then imageUrl panel
            else getImageUrl e (imageUrl panel))
      else None)"

definition handleEdit ::
  "env \<Rightarrow> (ComicPanelData \<Rightarrow> app \<Rightarrow> app) \<Rightarrow> ComicPanelData \<Rightarrow> string \<Rightarrow> KidProfile option
     \<Rightarrow> panel_state \<times> app \<Rightarrow> panel_state \<times> app" where
  "handleEdit e onUpdate panel charDesc prof st =
     (case st of (l, a) \<Rightarrow>
        if \<not> truthy (imageUrl panel) \<or> editPrompt l = [] then (l, a)
        else
          (let sourceUrl = or_else (resolvedImageUrl e panel) (the (imageUrl panel)) in
           case editPanelImage e sourceUrl (editPrompt l) (imagePrompt panel) charDesc
                  (case prof of None \<Rightarrow> None | Some p \<Rightarrow> artStyle p) a of
             (Inr newImageUrl, a1) \<Rightarrow>
               (l\<lparr>isEditing := False, editPrompt := [], isProcessing := False\<rparr>,
                onUpdate (panel\<lparr>imageUrl := Some newImageUrl\<rparr>) a1)
           | (Inl err, a1) \<Rightarrow>
               (l\<lparr>isProcessing := False\<rparr>,
                emit (ToastError ''Oops! Magic failed. Try again.'') (emit ConsoleError a1))))"

section \<open>Concrete inputs\<close>

definition profileResp0 :: KidProfileResponse where
  "profileResp0 = \<lparr>id_profile = 1, name_resp = ''Ada'', gender_resp = girl,
     skin_tone_resp = ''tan'', hair_color_resp = ''black'', eye_color_resp = ''brown'',
     favorite_color_resp = ''green'', dream_resp = None, archetype_resp = None,
     art_style_resp = None, created_at_profile = ''2025-01-01''\<rparr>"

definition storyResp0 :: StoryDetailResponse where
  "storyResp0 = \<lparr>id_story = 7, title_resp = None, foreword_resp = None,
     character_description = None, cover_image_prompt = None, cover_image_url = None,
     is_unlocked = True, created_at = ''2025-01-01'', updated_at = ''2025-01-02'',
     profile_resp = profileResp0,
     panels_resp =
       [\<lparr>id_resp = 41, panel_order = 0, text_resp = ''Once'', image_prompt = None,
          image_url = None\<rparr>,
        \<lparr>id_resp = 42, panel_order = 1, text_resp = ''Then'', image_prompt = Some ''a hill'',
          image_url = Some ''p42.png''\<rparr>]\<rparr>"

definition profile0 :: KidProfile where
  "profile0 = \<lparr>name = ''Ada'', gender = girl, skinTone = ''tan'', hairColor = ''black'',
     eyeColor = ''brown'', favoriteColor = ''green'', dream = ''to fly'', personality = [],
     archetype = None, photoUrl = None, artStyle = None\<rparr>"

definition panelA :: ComicPanelData where
  "panelA = \<lparr>id_panel = ''41'', text_panel = ''Once'', imagePrompt = ''a castle'',
     imageUrl = Some ''data:image/png;base64,AAAA'', isGenerating = Some False\<rparr>"

definition panelB :: ComicPanelData where
  "panelB = \<lparr>id_panel = ''42'', text_panel = ''Then'', imagePrompt = ''a hill'',
     imageUrl = Some ''data:image/png;base64,AAAA'', isGenerating = Some False\<rparr>"

definition panelC :: ComicPanelData where
  "panelC = \<lparr>id_panel = ''43'', text_panel = ''At last'', imagePrompt = ''a sea'',
     imageUrl = None, isGenerating = Some False\<rparr>"

definition panelB' :: ComicPanelData where
  "panelB' = panelB\<lparr>imageUrl := Some ''data:image/png;base64,BBBB''\<rparr>"

definition story3 :: Story where
  "story3 = \<lparr>title = ''Legend'', foreword = ''For Ada'', characterDescription = ''a girl'',
     coverImagePrompt = ''cover'', coverImageUrl = None, panels = [panelA, panelB, panelC]\<rparr>"

definition envOk :: env where
  "envOk = \<lparr>VITE_API_BASE_URL = None,
     generate_remote = (\<lambda>p. Ok \<lparr>story_resp = storyResp0\<rparr>),
     edit_remote = (\<lambda>b. Ok ''BBBB''),
     patch_remote = (\<lambda>u b. Ok ()),
     blob_remote = (\<lambda>u. Inr ''data:image/png;base64,CCCC'')\<rparr>"

definition envFail :: env where
  "envFail = \<lparr>VITE_API_BASE_URL = None,
     generate_remote = (\<lambda>p. NotOk ''Internal Server Error'' (Some ''quota exceeded'')),
     edit_remote = (\<lambda>b. Rejected (Error ''Failed to fetch'')),
     patch_remote = (\<lambda>u b. NotOk ''Not Found'' None),
     blob_remote = (\<lambda>u. Inl (Error ''Failed to fetch''))\<rparr>"

definition appEmpty :: app where
  "appEmpty = \<lparr>story = None, savedStoryId = None, view = ONBOARDING, profile = None,
     currentPage = 0, events = []\<rparr>"

definition appSaved :: "int \<Rightarrow> app" where
  "appSaved n = \<lparr>story = Some story3, savedStoryId = Some n, view = STORYBOARD,
     profile = Some profile0, currentPage = 2, events = []\<rparr>"

definition editing :: panel_state where
  "editing = \<lparr>isEditing = True, editPrompt = ''add a dragon'', isProcessing = False\<rparr>"

section \<open>Pagination: the number of states\<close>

lemma panelCount_Some: "panels s \<noteq> [] \<Longrightarrow> panelCount (Some s) = length (panels s)"
  by (simp add: panelCount_def)

lemma ceil_half: "nat \<lceil>(real n + 2) / 2\<rceil> = (n + 3) div 2"
proof -
  have "\<lceil>(real n + 2) / 2\<rceil> = \<lceil>real_of_int (int n + 2) / real_of_int 2\<rceil>"
    by simp
  also have "\<dots> = - ((- (int n + 2)) div 2)"
    by (simp only: ceiling_divide_eq_div)
  also have "\<dots> = (int n + 3) div 2"
    by presburger
  finally have "\<lceil>(real n + 2) / 2\<rceil> = (int n + 3) div 2" .
  then show ?thesis
    by (simp add: nat_div_distrib nat_add_distrib)
qed

lemma spreadsNeeded_div: "spreadsNeeded st = (panelCount st + 3) div 2"
  by (simp add: spreadsNeeded_def ceil_half)

lemma totalStates_div: "totalStates st = 2 + (panelCount st + 3) div 2"
  by (simp add: totalStates_def spreadsNeeded_div)

lemma length_storyN: "length (panels (storyN n)) = n"
  by (simp add: storyN_def)

section \<open>Pagination: the last spread of an odd number of panels\<close>

text \<open>
  With an odd number \<open>n\<close> of panels, the foreword, the panels and the closing page fill
  \<open>n + 2\<close> of the \<open>n + 3\<close> slots of the spreads. The slot left over is the left page of
  the last spread, state \<^verbatim>\<open>totalStates - 2\<close>: it is given \<^verbatim>\<open>story.panels[n]\<close>, which is
  \<^verbatim>\<open>undefined\<close>, and the render throws.
\<close>

lemma last_spread_odd:
  assumes "odd (length (panels s))"
  shows "book s (int (totalStates (Some s)) - 2)
           = [Spread (PanelAt (int (length (panels s)))) Closing]"
    and "panelProp s (int (length (panels s))) = None"
    and "renderBook s (int (totalStates (Some s)) - 2) = None"
proof -
  define n where "n = length (panels s)"
  have ne: "panels s \<noteq> []" using assms by (cases "panels s") simp_all
  have odd: "odd n" using assms by (simp add: n_def)
  have n: "0 < n" using ne by (simp add: n_def)
  obtain m where m: "n = 2 * m + 1" using odd by (elim oddE)
  have T: "totalStates (Some s) = m + 4"
    using ne by (simp add: totalStates_div panelCount_Some n_def [symmetric] m)
  show b: "book s (int (totalStates (Some s)) - 2)
           = [Spread (PanelAt (int (length (panels s)))) Closing]"
    by (simp add: T book_def leftPage_def rightPage_def n_def [symmetric] m)
  show p: "panelProp s (int (length (panels s))) = None"
    by (simp add: panelProp_def)
  show "renderBook s (int (totalStates (Some s)) - 2) = None"
    by (simp add: renderBook_def b p)
qed

text \<open>
  Claim C1 at a story of eleven panels. \<^verbatim>\<open>totalStates\<close> is 9 and the spreads are the
  states 1 to 7. State 6 shows panels 9 and 10. State 7, the last spread, has the closing
  page on the right, and its left slot refers to panel index 11, outside \<open>[0, 10]\<close>:
  \<^verbatim>\<open>story.panels[11]\<close> is \<^verbatim>\<open>undefined\<close>, the render of the spread throws, and the closing
  page is not shown.
\<close>

theorem C1_odd_count_undefined_panel:
  "length (panels (storyN 11)) = 11
   \<and> totalStates (Some (storyN 11)) = 9
   \<and> book (storyN 11) 6 = [Spread (PanelAt 9) (PanelAt 10)]
   \<and> book (storyN 11) 7 = [Spread (PanelAt 11) Closing]
   \<and> panelProp (storyN 11) 11 = None
   \<and> renderBook (storyN 11) 7 = None"
proof -
  have len: "length (panels (storyN 11)) = 11" by (rule length_storyN)
  have pc: "panelCount (Some (storyN 11)) = 11" using len by (simp add: panelCount_def)
  have T: "totalStates (Some (storyN 11)) = 9" by (simp add: totalStates_div pc)
  have b6: "book (storyN 11) 6 = [Spread (PanelAt 9) (PanelAt 10)]"
    by (simp add: book_def leftPage_def rightPage_def T)
  have b7: "book (storyN 11) 7 = [Spread (PanelAt 11) Closing]"
    by (simp add: book_def leftPage_def rightPage_def T)
  have p: "panelProp (storyN 11) 11 = None"
    by (simp add: panelProp_def len)
  have r: "renderBook (storyN 11) 7 = None"
    by (simp add: renderBook_def b7 p)
  show ?thesis using len T b6 b7 p r by simp
qed

section \<open>Pagination: the states of the book\<close>


text \<open>
  Claim C2, as amended. For every displayed story with at least one panel, \<open>n\<close> panels,
  \<^verbatim>\<open>spreadsNeeded\<close> is the ceiling of \<open>(n + 2) / 2\<close> and \<^verbatim>\<open>totalStates\<close> is
  \<open>2 + spreadsNeeded\<close>; state 0 shows the front cover and state \<^verbatim>\<open>totalStates - 1\<close> the back
  cover. (With no panel the count is taken to be 10.)
\<close>

theorem C2_total_states:
  assumes "panels s \<noteq> []"
  shows "spreadsNeeded (Some s) = nat \<lceil>(real (length (panels s)) + 2) / 2\<rceil>
       \<and> totalStates (Some s) = 2 + spreadsNeeded (Some s)
       \<and> book s 0 = [FrontCover]
       \<and> book s (int (totalStates (Some s)) - 1) = [BackCover]"
proof -
  have pc: "panelCount (Some s) = length (panels s)"
    by (rule panelCount_Some [OF assms])
  have a: "spreadsNeeded (Some s) = nat \<lceil>(real (length (panels s)) + 2) / 2\<rceil>"
    by (simp add: spreadsNeeded_def pc)
  have b: "totalStates (Some s) = 2 + spreadsNeeded (Some s)"
    by (simp add: totalStates_def)
  have c: "book s 0 = [FrontCover]"
    by (simp add: book_def totalStates_div)
  have d: "book s (int (totalStates (Some s)) - 1) = [BackCover]"
    by (simp add: book_def totalStates_div)
  from a b c d show ?thesis by simp
qed

text \<open>
  Claim C2: the amended statement at a story of four panels.
\<close>

theorem C2_total_states_witness:
  "panels (storyN 4) \<noteq> []
   \<and> spreadsNeeded (Some (storyN 4)) = 3
   \<and> totalStates (Some (storyN 4)) = 5
   \<and> book (storyN 4) 0 = [FrontCover]
   \<and> book (storyN 4) 4 = [BackCover]"
proof -
  have ne: "panels (storyN 4) \<noteq> []" by (simp add: storyN_def)
  have len: "length (panels (storyN 4)) = 4" by (rule length_storyN)
  note th = C2_total_states [OF ne]
  have sp: "spreadsNeeded (Some (storyN 4)) = 3"
    using th by (simp add: len ceil_half)
  have T: "totalStates (Some (storyN 4)) = 5"
    using th sp by simp
  have bc: "book (storyN 4) 4 = [BackCover]"
    using th T by simp
  show ?thesis using ne th sp T bc by simp
qed

text \<open>
  Claim C2 as stated fails for \<open>n = 0\<close>: a displayed story with no panel has
  \<^verbatim>\<open>spreadsNeeded\<close> 6 and \<^verbatim>\<open>totalStates\<close> 8, where the formula at 0 gives 1 and 3.
\<close>

theorem C2_empty_story_counterexample:
  "length (panels (storyN 0)) = 0
   \<and> spreadsNeeded (Some (storyN 0)) = 6
   \<and> nat \<lceil>(real (length (panels (storyN 0))) + 2) / 2\<rceil> = 1
   \<and> totalStates (Some (storyN 0)) = 8
   \<and> totalStates (Some (storyN 0)) \<noteq> 2 + nat \<lceil>(real (length (panels (storyN 0))) + 2) / 2\<rceil>"
proof -
  have len0: "length (panels (storyN 0)) = 0" by (rule length_storyN)
  have pc: "panelCount (Some (storyN 0)) = 10" by (simp add: panelCount_def len0)
  have sp: "spreadsNeeded (Some (storyN 0)) = 6" by (simp add: spreadsNeeded_div pc)
  have T: "totalStates (Some (storyN 0)) = 8" by (simp add: totalStates_div pc)
  have f: "nat \<lceil>(real (length (panels (storyN 0))) + 2) / 2\<rceil> = 1"
    by (simp add: len0)
  show ?thesis using len0 sp T f by simp
qed

text \<open>
  Claim C3, as amended. With ten panels \<^verbatim>\<open>spreadsNeeded\<close> is 6 and \<^verbatim>\<open>totalStates\<close> is 8;
  state 0 is the front cover, state 7 the back cover, states 1 to 6 are spreads; state 1
  shows the foreword on the left and panel 0 on the right, state 6 shows panel 9 on the
  left and the closing page on the right (panel 8 is on the right of state 5).
\<close>

theorem C3_ten_panels:
  assumes "length (panels s) = 10"
  shows "spreadsNeeded (Some s) = 6 \<and> totalStates (Some s) = 8
       \<and> book s 0 = [FrontCover]
       \<and> book s 7 = [BackCover]
       \<and> book s 1 = [Spread Foreword (PanelAt 0)]
       \<and> book s 2 = [Spread (PanelAt 1) (PanelAt 2)]
       \<and> book s 3 = [Spread (PanelAt 3) (PanelAt 4)]
       \<and> book s 4 = [Spread (PanelAt 5) (PanelAt 6)]
       \<and> book s 5 = [Spread (PanelAt 7) (PanelAt 8)]
       \<and> book s 6 = [Spread (PanelAt 9) Closing]"
proof -
  have pc: "panelCount (Some s) = 10" using assms by (simp add: panelCount_def)
  have sp: "spreadsNeeded (Some s) = 6" by (simp add: spreadsNeeded_div pc)
  have T: "totalStates (Some s) = 8" by (simp add: totalStates_div pc)
  show ?thesis
    by (simp add: sp T book_def leftPage_def rightPage_def)
qed

text \<open>
  Claim C3: the amended statement at a story of ten panels.
\<close>

theorem C3_ten_panels_witness:
  "length (panels (storyN 10)) = 10
   \<and> totalStates (Some (storyN 10)) = 8
   \<and> book (storyN 10) 1 = [Spread Foreword (PanelAt 0)]
   \<and> book (storyN 10) 6 = [Spread (PanelAt 9) Closing]
   \<and> book (storyN 10) 7 = [BackCover]"
  using C3_ten_panels [OF length_storyN [of 10]] by (simp add: length_storyN)

text \<open>
  Claim C3 as stated fails: with ten panels the left page of state 6 shows panel 9, not
  panel 8.
\<close>

theorem C3_state6_left_counterexample:
  "length (panels (storyN 10)) = 10
   \<and> book (storyN 10) 6 = [Spread (PanelAt 9) Closing]
   \<and> book (storyN 10) 6 \<noteq> [Spread (PanelAt 8) Closing]
   \<and> book (storyN 10) 5 = [Spread (PanelAt 7) (PanelAt 8)]"
proof -
  have len: "length (panels (storyN 10)) = 10" by (rule length_storyN)
  have pc: "panelCount (Some (storyN 10)) = 10" using len by (simp add: panelCount_def)
  have T: "totalStates (Some (storyN 10)) = 8" by (simp add: totalStates_div pc)
  show ?thesis by (simp add: len T book_def leftPage_def rightPage_def)
qed

text \<open>
  Claim C10. With no story, or with a story whose list of panels is empty, the panel count
  is 10 and \<^verbatim>\<open>totalStates\<close> is 8, where the formula at 0 gives 3.
\<close>

theorem C10_default_panel_count:
  "panelCount None = 10 \<and> totalStates None = 8
   \<and> panelCount (Some (s\<lparr>panels := []\<rparr>)) = 10
   \<and> totalStates (Some (s\<lparr>panels := []\<rparr>)) = 8
   \<and> 2 + nat \<lceil>(real (length (panels (s\<lparr>panels := []\<rparr>))) + 2) / 2\<rceil> = 3"
  by (simp add: totalStates_div panelCount_def)

section \<open>Normalization of a stored story\<close>

lemma or_empty_None: "or_empty None = []"
  by (simp add: or_empty_def)

lemma or_undefined_None: "or_undefined None = None"
  by (simp add: or_undefined_def truthy_def)

text \<open>
  Claim C7, as amended. \<^verbatim>\<open>mapApiStory\<close> gives the empty string for a null title,
  foreword, character description, cover prompt or panel prompt, and leaves the cover image
  and a panel's image absent (\<^verbatim>\<open>undefined\<close>) when they are null; every panel it returns
  has \<^verbatim>\<open>isGenerating\<close> false, and the panels keep their number, order and text.
\<close>

theorem C7_mapApiStory:
  "(title_resp d = None \<longrightarrow> title (mapApiStory d) = [])
   \<and> (foreword_resp d = None \<longrightarrow> foreword (mapApiStory d) = [])
   \<and> (character_description d = None \<longrightarrow> characterDescription (mapApiStory d) = [])
   \<and> (cover_image_prompt d = None \<longrightarrow> coverImagePrompt (mapApiStory d) = [])
   \<and> (cover_image_url d = None \<longrightarrow> coverImageUrl (mapApiStory d) = None)
   \<and> (\<forall>i < length (panels_resp d). image_prompt (panels_resp d ! i) = None \<longrightarrow>
          imagePrompt (panels (mapApiStory d) ! i) = [])
   \<and> (\<forall>i < length (panels_resp d). image_url (panels_resp d ! i) = None \<longrightarrow>
          imageUrl (panels (mapApiStory d) ! i) = None)
   \<and> (\<forall>p \<in> set (panels (mapApiStory d)). isGenerating p = Some False)
   \<and> length (panels (mapApiStory d)) = length (panels_resp d)
   \<and> map text_panel (panels (mapApiStory d)) = map text_resp (panels_resp d)"
  by (auto simp: mapApiStory_def mapApiPanel_def or_empty_None or_undefined_None)

text \<open>
  Claim C7: the amended statement at a response whose optional fields are null.
\<close>

theorem C7_mapApiStory_witness:
  "title_resp storyResp0 = None \<and> title (mapApiStory storyResp0) = []
   \<and> foreword_resp storyResp0 = None \<and> foreword (mapApiStory storyResp0) = []
   \<and> character_description storyResp0 = None \<and> characterDescription (mapApiStory storyResp0) = []
   \<and> cover_image_prompt storyResp0 = None \<and> coverImagePrompt (mapApiStory storyResp0) = []
   \<and> cover_image_url storyResp0 = None \<and> coverImageUrl (mapApiStory storyResp0) = None
   \<and> image_prompt (panels_resp storyResp0 ! 0) = None
   \<and> imagePrompt (panels (mapApiStory storyResp0) ! 0) = []
   \<and> image_url (panels_resp storyResp0 ! 0) = None
   \<and> imageUrl (panels (mapApiStory storyResp0) ! 0) = None
   \<and> map isGenerating (panels (mapApiStory storyResp0)) = [Some False, Some False]
   \<and> map text_panel (panels (mapApiStory storyResp0)) = [''Once'', ''Then'']"
proof -
  note th = C7_mapApiStory [of storyResp0]
  have len: "length (panels_resp storyResp0) = 2" by (simp add: storyResp0_def)
  have nulls: "title_resp storyResp0 = None" "foreword_resp storyResp0 = None"
    "character_description storyResp0 = None" "cover_image_prompt storyResp0 = None"
    "cover_image_url storyResp0 = None"
    "image_prompt (panels_resp storyResp0 ! 0) = None"
    "image_url (panels_resp storyResp0 ! 0) = None"
    by (simp_all add: storyResp0_def)
  have texts: "map text_resp (panels_resp storyResp0) = [''Once'', ''Then'']"
    by (simp add: storyResp0_def)
  have p0: "imagePrompt (panels (mapApiStory storyResp0) ! 0) = []"
    "imageUrl (panels (mapApiStory storyResp0) ! 0) = None"
    using th nulls len by auto
  have len': "length (panels (mapApiStory storyResp0)) = 2" using th len by simp
  have gen: "map isGenerating (panels (mapApiStory storyResp0)) = [Some False, Some False]"
  proof -
    have "\<forall>p \<in> set (panels (mapApiStory storyResp0)). isGenerating p = Some False"
      using th by blast
    then have "map isGenerating (panels (mapApiStory storyResp0))
        = replicate (length (panels (mapApiStory storyResp0))) (Some False)"
      by (simp add: map_replicate_const [symmetric] cong: map_cong)
    then show ?thesis by (simp add: len' numeral_2_eq_2)
  qed
  show ?thesis using th nulls texts p0 gen by simp
qed

text \<open>
  Claim C7 as stated fails: a null \<^verbatim>\<open>cover_image_url\<close> and a null \<^verbatim>\<open>image_url\<close> become
  \<^verbatim>\<open>undefined\<close>, not the empty string.
\<close>

theorem C7_image_url_counterexample:
  "cover_image_url storyResp0 = None
   \<and> coverImageUrl (mapApiStory storyResp0) = None
   \<and> coverImageUrl (mapApiStory storyResp0) \<noteq> Some []
   \<and> image_url (panels_resp storyResp0 ! 0) = None
   \<and> imageUrl (panels (mapApiStory storyResp0) ! 0) = None
   \<and> imageUrl (panels (mapApiStory storyResp0) ! 0) \<noteq> Some []"
  by (simp add: storyResp0_def mapApiStory_def mapApiPanel_def or_undefined_None)

section \<open>Effects of the requests\<close>

lemma story_emit: "story (emit ev a) = story a"
  by (simp add: emit_def)

lemma savedStoryId_emit: "savedStoryId (emit ev a) = savedStoryId a"
  by (simp add: emit_def)

lemma events_emit: "events (emit ev a) = events a @ [ev]"
  by (simp add: emit_def)

lemma setStory_simps:
  "story (setStory s a) = Some s"
  "savedStoryId (setStory s a) = savedStoryId a"
  "events (setStory s a) = events a @ [SetStory s]"
  by (simp_all add: setStory_def emit_def)

lemma setSavedStoryId_simps:
  "story (setSavedStoryId n a) = story a"
  "savedStoryId (setSavedStoryId n a) = Some n"
  "events (setSavedStoryId n a) = events a @ [SetSavedStoryId n]"
  by (simp_all add: setSavedStoryId_def emit_def)

lemma updatePanelImage_snd:
  "snd (updatePanelImage e sid k img a) =
     emit (Request ''PATCH'' (API_BASE e @ ''/stories/'' @ String_of sid @ ''/panels/'' @ String_of k)
            (ImageBody img)) a"
  by (simp add: updatePanelImage_def Let_def split: outcome.splits)

lemma updatePanelImage_fst:
  "(\<exists>u. fst (updatePanelImage e sid k img a) = Inr u) \<longleftrightarrow>
   (\<exists>u. patch_remote e (API_BASE e @ ''/stories/'' @ String_of sid @ ''/panels/'' @ String_of k)
            (ImageBody img) = Ok u)"
  by (simp add: updatePanelImage_def Let_def split: outcome.splits)

lemma pureBase64_frame:
  "story (snd (pureBase64 e src a)) = story a
   \<and> savedStoryId (snd (pureBase64 e src a)) = savedStoryId a
   \<and> filter isSetStory (events (snd (pureBase64 e src a))) = filter isSetStory (events a)
   \<and> filter isToast (events (snd (pureBase64 e src a))) = filter isToast (events a)"
  by (simp add: pureBase64_def urlToBase64_def Let_def emit_def split: sum.splits)

lemma editPanelImage_frame:
  "story (snd (editPanelImage e src ep op cg style a)) = story a
   \<and> savedStoryId (snd (editPanelImage e src ep op cg style a)) = savedStoryId a
   \<and> filter isSetStory (events (snd (editPanelImage e src ep op cg style a)))
       = filter isSetStory (events a)
   \<and> filter isToast (events (snd (editPanelImage e src ep op cg style a)))
       = filter isToast (events a)"
proof -
  obtain r a1 where p: "pureBase64 e src a = (r, a1)" by (cases "pureBase64 e src a")
  have f: "story a1 = story a" "savedStoryId a1 = savedStoryId a"
    "filter isSetStory (events a1) = filter isSetStory (events a)"
    "filter isToast (events a1) = filter isToast (events a)"
    using pureBase64_frame [of e src a] p by simp_all
  show ?thesis
    using f by (simp add: editPanelImage_def p Let_def emit_def split: sum.splits outcome.splits)
qed

text \<open>
  Claim C8. For a payload that starts neither with \<^verbatim>\<open>data:\<close> nor with \<^verbatim>\<open>http\<close>, the
  resolution step of \<^verbatim>\<open>editPanelImage\<close> returns the payload unchanged and sends nothing;
  applied to its own result it returns the payload again.
\<close>

theorem C8_bare_payload:
  assumes "\<not> startsWith payload ''data:''" and "\<not> startsWith payload ''http''"
  shows "pureBase64 e payload a = (Inr (Some payload), a)
       \<and> (case pureBase64 e payload a of
             (Inr (Some once), a1) \<Rightarrow> pureBase64 e once a1
           | other \<Rightarrow> other) = (Inr (Some payload), a)"
  using assms by (simp add: pureBase64_def)

text \<open>
  Claim C8 at a bare base64 payload.
\<close>

theorem C8_bare_payload_witness:
  "\<not> startsWith ''iVBORw0KGgo='' ''data:'' \<and> \<not> startsWith ''iVBORw0KGgo='' ''http''
   \<and> pureBase64 envFail ''iVBORw0KGgo='' appEmpty = (Inr (Some ''iVBORw0KGgo=''), appEmpty)
   \<and> (case pureBase64 envFail ''iVBORw0KGgo='' appEmpty of
         (Inr (Some once), a1) \<Rightarrow> pureBase64 envFail once a1
       | other \<Rightarrow> other) = (Inr (Some ''iVBORw0KGgo=''), appEmpty)"
proof -
  have h1: "\<not> startsWith ''iVBORw0KGgo='' ''data:''" by (simp add: startsWith_def)
  have h2: "\<not> startsWith ''iVBORw0KGgo='' ''http''" by (simp add: startsWith_def)
  show ?thesis
    using h1 h2 C8_bare_payload [OF h1 h2, of envFail appEmpty] by simp
qed

section \<open>Updating a panel\<close>

lemma updatePanel_story:
  assumes "story a = Some s"
  shows "story (updatePanel e updated a) =
     Some (s\<lparr>panels := map (\<lambda>p. if id_panel p = id_panel updated then updated else p) (panels s)\<rparr>)"
proof -
  let ?s' = "s\<lparr>panels := map (\<lambda>p. if id_panel p = id_panel updated then updated else p) (panels s)\<rparr>"
  let ?k = "findIndex (\<lambda>p. id_panel p = id_panel updated) (panels s)"
  let ?a1 = "setStory ?s' a"
  obtain r a2 where u: "updatePanelImage e (the (savedStoryId a)) ?k (the (imageUrl updated)) ?a1 = (r, a2)"
    by (cases "updatePanelImage e (the (savedStoryId a)) ?k (the (imageUrl updated)) ?a1")
  have "a2 = snd (updatePanelImage e (the (savedStoryId a)) ?k (the (imageUrl updated)) ?a1)"
    by (simp add: u)
  then have a2: "story a2 = Some ?s'"
    by (simp add: updatePanelImage_snd story_emit setStory_simps)
  show ?thesis
    using assms a2
    by (simp add: updatePanel_def Let_def u story_emit setStory_simps split: sum.splits)
qed

text \<open>
  Claim C9. \<^verbatim>\<open>updatePanel\<close> on a store that holds a story leaves the number of panels,
  the sequence of their identities, every panel whose identity differs from that of the
  updated panel, and the title, foreword, character description, cover prompt and cover
  image as they were; a panel with the identity of the updated panel becomes the updated
  panel.
\<close>

theorem C9_updatePanel_frame:
  assumes "story a = Some s"
  shows "\<exists>s'. story (updatePanel e updated a) = Some s'
       \<and> length (panels s') = length (panels s)
       \<and> map id_panel (panels s') = map id_panel (panels s)
       \<and> (\<forall>i < length (panels s). id_panel (panels s ! i) \<noteq> id_panel updated \<longrightarrow>
             panels s' ! i = panels s ! i)
       \<and> (\<forall>i < length (panels s). id_panel (panels s ! i) = id_panel updated \<longrightarrow>
             panels s' ! i = updated)
       \<and> title s' = title s \<and> foreword s' = foreword s
       \<and> characterDescription s' = characterDescription s
       \<and> coverImagePrompt s' = coverImagePrompt s
       \<and> coverImageUrl s' = coverImageUrl s"
proof -
  let ?s' = "s\<lparr>panels := map (\<lambda>p. if id_panel p = id_panel updated then updated else p) (panels s)\<rparr>"
  have st: "story (updatePanel e updated a) = Some ?s'"
    by (rule updatePanel_story [OF assms])
  have ids: "map id_panel (panels ?s') = map id_panel (panels s)"
    by (simp add: comp_def cong: map_cong)
  show ?thesis
    apply (rule exI [of _ ?s'])
    using st ids by simp
qed

text \<open>
  Claim C9 at a story of three panels, the second one updated.
\<close>

theorem C9_updatePanel_frame_witness:
  "story (appSaved 7) = Some story3
   \<and> story (updatePanel envFail panelB' (appSaved 7))
      = Some (story3\<lparr>panels := [panelA, panelB', panelC]\<rparr>)"
proof -
  have st: "story (appSaved 7) = Some story3" by (simp add: appSaved_def)
  obtain s' where s': "story (updatePanel envFail panelB' (appSaved 7)) = Some s'"
    and len: "length (panels s') = length (panels story3)"
    and keep: "\<forall>i < length (panels story3). id_panel (panels story3 ! i) \<noteq> id_panel panelB' \<longrightarrow>
             panels s' ! i = panels story3 ! i"
    and repl: "\<forall>i < length (panels story3). id_panel (panels story3 ! i) = id_panel panelB' \<longrightarrow>
             panels s' ! i = panelB'"
    and rest: "title s' = title story3" "foreword s' = foreword story3"
       "characterDescription s' = characterDescription story3"
       "coverImagePrompt s' = coverImagePrompt story3"
       "coverImageUrl s' = coverImageUrl story3"
    using C9_updatePanel_frame [OF st, of envFail panelB'] by blast
  have l3: "length (panels s') = 3" using len by (simp add: story3_def)
  have p0: "panels s' ! 0 = panelA"
    using keep [rule_format, of 0]
    by (simp add: story3_def panelA_def panelB'_def panelB_def)
  have p1: "panels s' ! 1 = panelB'"
    using repl [rule_format, of 1]
    by (simp add: story3_def panelB'_def panelB_def)
  have p2: "panels s' ! 2 = panelC"
    using keep [rule_format, of 2]
    by (simp add: story3_def panelC_def panelB'_def panelB_def)
  have ps: "panels s' = [panelA, panelB', panelC]"
    using l3 p0 p1 p2
    by (intro nth_equalityI) (auto simp: less_Suc_eq numeral_3_eq_3 numeral_2_eq_2)
  have "s' = story3\<lparr>panels := [panelA, panelB', panelC]\<rparr>"
    using rest ps by (cases s') (simp add: story3_def)
  then show ?thesis using st s' by simp
qed

lemma findIndex_ge: "- 1 \<le> findIndex P xs"
  by (induction xs) (auto simp: Let_def)

lemma findIndex_found:
  "\<exists>x \<in> set xs. P x \<Longrightarrow>
   0 \<le> findIndex P xs \<and> findIndex P xs < int (length xs)
   \<and> P (xs ! nat (findIndex P xs))
   \<and> (\<forall>j < nat (findIndex P xs). \<not> P (xs ! j))"
proof (induction xs)
  case Nil
  then show ?case by simp
next
  case (Cons x xs)
  show ?case
  proof (cases "P x")
    case True
    then show ?thesis by simp
  next
    case False
    with Cons.prems have ex: "\<exists>x \<in> set xs. P x" by simp
    note ih = Cons.IH [OF ex]
    have ne: "findIndex P xs \<noteq> - 1" using ih by linarith
    have eq: "findIndex P (x # xs) = findIndex P xs + 1"
      using False ne by (simp add: Let_def)
    have n: "nat (findIndex P xs + 1) = Suc (nat (findIndex P xs))"
      using ih by linarith
    show ?thesis
      unfolding eq n using ih False
      by (auto simp: less_Suc_eq_0_disj)
  qed
qed

text \<open>
  Claim C5. The store holds a story and the id under which the backend saved it: a row id
  of its database, so not 0 and a safe integer. For an updated panel of that story that
  carries a new image, \<^verbatim>\<open>updatePanel\<close> finds the position of the panel by its identity
  (the first panel with that identity), sets the story with the panel replaced, and after
  that sends one request, \<^verbatim>\<open>PATCH /stories/{id}/panels/{position}\<close>, with the new image;
  whatever the answer to that request, the store holds the story with the new image.
\<close>

theorem C5_edit_persisted:
  assumes "story a = Some s" and "savedStoryId a = Some sid"
    and "sid \<noteq> 0" and "safe_integer sid"
    and "imageUrl updated = Some img" and "img \<noteq> []"
    and "\<exists>p \<in> set (panels s). id_panel p = id_panel updated"
  shows "(let k = findIndex (\<lambda>p. id_panel p = id_panel updated) (panels s);
              s' = s\<lparr>panels := map (\<lambda>p. if id_panel p = id_panel updated then updated else p)
                                   (panels s)\<rparr>;
              url = API_BASE e @ ''/stories/'' @ String_of sid @ ''/panels/'' @ String_of k
          in 0 \<le> k \<and> k < int (length (panels s))
             \<and> id_panel (panels s ! nat k) = id_panel updated
             \<and> (\<forall>j < nat k. id_panel (panels s ! j) \<noteq> id_panel updated)
             \<and> events (updatePanel e updated a) =
                 events a @
                 [SetStory s',
                  Request ''PATCH'' url (ImageBody img),
                  (case patch_remote e url (ImageBody img) of
                     Ok u \<Rightarrow> ConsoleLog (''Panel '' @ String_of k @ '' saved to backend'')
                   | Rejected t \<Rightarrow> ConsoleError
                   | NotOk statusText detail \<Rightarrow> ConsoleError)]
             \<and> story (updatePanel e updated a) = Some s'
             \<and> panels s' ! nat k = updated)"
proof -
  define k where "k = findIndex (\<lambda>p. id_panel p = id_panel updated) (panels s)"
  define s' where "s' = s\<lparr>panels := map (\<lambda>p. if id_panel p = id_panel updated then updated else p)
                                   (panels s)\<rparr>"
  define url where "url = API_BASE e @ ''/stories/'' @ String_of sid @ ''/panels/'' @ String_of k"
  have found: "0 \<le> k" "k < int (length (panels s))"
    "id_panel (panels s ! nat k) = id_panel updated"
    "\<forall>j < nat k. id_panel (panels s ! j) \<noteq> id_panel updated"
    using findIndex_found [of "panels s" "\<lambda>p. id_panel p = id_panel updated"] assms(7)
    unfolding k_def by simp_all
  have guard: "truthy_num (savedStoryId a)" "k \<noteq> - 1" "truthy (imageUrl updated)"
    using assms found by (simp_all add: truthy_num_def truthy_def)
  have ev: "events (updatePanel e updated a) =
      events a @ [SetStory s', Request ''PATCH'' url (ImageBody img),
        (case patch_remote e url (ImageBody img) of
           Ok u \<Rightarrow> ConsoleLog (''Panel '' @ String_of k @ '' saved to backend'')
         | Rejected t \<Rightarrow> ConsoleError
         | NotOk statusText detail \<Rightarrow> ConsoleError)]"
    using assms(1,2,5) guard
    unfolding k_def s'_def url_def
    by (simp add: updatePanel_def updatePanelImage_def Let_def emit_def setStory_def
        split: outcome.splits)
  have st: "story (updatePanel e updated a) = Some s'"
    unfolding s'_def by (rule updatePanel_story [OF assms(1)])
  have nk: "nat k < length (panels s)" using found by linarith
  have at: "panels s' ! nat k = updated"
    using nk found(3) by (simp add: s'_def)
  show ?thesis
    using found ev st at
    unfolding k_def s'_def url_def Let_def by blast
qed

text \<open>
  Claim C5 at a saved story 7 whose second panel is edited, the request being answered
  with an error.
\<close>

theorem C5_edit_persisted_witness:
  "story (appSaved 7) = Some story3 \<and> savedStoryId (appSaved 7) = Some 7
   \<and> safe_integer 7
   \<and> imageUrl panelB' = Some ''data:image/png;base64,BBBB''
   \<and> findIndex (\<lambda>p. id_panel p = id_panel panelB') (panels story3) = 1
   \<and> events (updatePanel envFail panelB' (appSaved 7)) =
       [SetStory (story3\<lparr>panels := [panelA, panelB', panelC]\<rparr>),
        Request ''PATCH'' ''http://localhost:8000/api/stories/7/panels/1''
          (ImageBody ''data:image/png;base64,BBBB''),
        ConsoleError]
   \<and> story (updatePanel envFail panelB' (appSaved 7))
       = Some (story3\<lparr>panels := [panelA, panelB', panelC]\<rparr>)"
proof -
  have h1: "story (appSaved 7) = Some story3" by (simp add: appSaved_def)
  have h2: "savedStoryId (appSaved 7) = Some 7" by (simp add: appSaved_def)
  have h3: "(7::int) \<noteq> 0" by simp
  have hs: "safe_integer 7" by (simp add: safe_integer_def)
  have h4: "imageUrl panelB' = Some ''data:image/png;base64,BBBB''"
    by (simp add: panelB'_def)
  have h5: "''data:image/png;base64,BBBB'' \<noteq> []" by simp
  have h6: "\<exists>p \<in> set (panels story3). id_panel p = id_panel panelB'"
    by (simp add: story3_def panelB'_def)
  have k: "findIndex (\<lambda>p. id_panel p = id_panel panelB') (panels story3) = 1"
    by (simp add: story3_def panelA_def panelB_def panelB'_def)
  have s': "story3\<lparr>panels := map (\<lambda>p. if id_panel p = id_panel panelB' then panelB' else p)
                                   (panels story3)\<rparr>
      = story3\<lparr>panels := [panelA, panelB', panelC]\<rparr>"
    by (simp add: story3_def panelA_def panelB_def panelB'_def panelC_def)
  have url: "API_BASE envFail @ ''/stories/'' @ String_of 7 @ ''/panels/'' @ String_of 1
      = ''http://localhost:8000/api/stories/7/panels/1''"
    by (simp add: API_BASE_def API_BASE_URL_def or_else_def envFail_def String_of_def
        string_of_nat.simps digit_char_def)
  have pr: "patch_remote envFail ''http://localhost:8000/api/stories/7/panels/1''
       (ImageBody ''data:image/png;base64,BBBB'') = NotOk ''Not Found'' None"
    by (simp add: envFail_def)
  note th = C5_edit_persisted [OF h1 h2 h3 hs h4 h5 h6, of envFail, unfolded Let_def k s' url pr]
  have ev0: "events (appSaved 7) = []" by (simp add: appSaved_def)
  show ?thesis using h1 h2 hs h4 k th ev0 by simp
qed

section \<open>Generating a story\<close>

lemma generateAndSaveStory_fst: "fst (generateAndSaveStory e q a) = fst (generateAndSaveStory e q b)"
  by (simp add: generateAndSaveStory_def Let_def split: outcome.splits)

lemma generateAndSaveStory_snd:
  "snd (generateAndSaveStory e q a) =
     emit (Request ''POST'' (API_BASE e @ ''/stories/generate'') (ProfileBody q)) a"
  by (simp add: generateAndSaveStory_def Let_def split: outcome.splits)

text \<open>
  Claim C4. When the call of \<^verbatim>\<open>generateAndSaveStory\<close> made by \<^verbatim>\<open>generateStory\<close>
  throws, \<^verbatim>\<open>handleWizardComplete\<close> leaves the story and the saved story id of the store
  as they were, calls \<^verbatim>\<open>setStory\<close> not once and shows exactly one error notification;
  when the call returns a response, the saved story id is the id of the returned story, the
  story is the normalized returned story, and no notification is shown.
\<close>

theorem C4_generate_failure:
  "(fst (generateAndSaveStory e (profileForApi p) a) = Inl t \<longrightarrow>
      story (handleWizardComplete e p a) = story a
      \<and> savedStoryId (handleWizardComplete e p a) = savedStoryId a
      \<and> filter isSetStory (events (handleWizardComplete e p a)) = filter isSetStory (events a)
      \<and> filter isToast (events (handleWizardComplete e p a)) =
          filter isToast (events a) @
          [ToastError (case t of Error m \<Rightarrow> m | Thrown \<Rightarrow> ''Generation failed'')])
   \<and> (fst (generateAndSaveStory e (profileForApi p) a) = Inr r \<longrightarrow>
      savedStoryId (handleWizardComplete e p a) = Some (id_story (story_resp r))
      \<and> story (handleWizardComplete e p a) = Some (mapApiStory (story_resp r))
      \<and> filter isToast (events (handleWizardComplete e p a)) = filter isToast (events a))"
proof -
  let ?a0 = "a\<lparr>profile := Some p, view := GENERATING_SCRIPT\<rparr>"
  obtain x a1 where g: "generateAndSaveStory e (profileForApi p) ?a0 = (x, a1)"
    by (cases "generateAndSaveStory e (profileForApi p) ?a0")
  have x: "x = fst (generateAndSaveStory e (profileForApi p) a)"
    using g generateAndSaveStory_fst [of e "profileForApi p" ?a0 a] by simp
  have a1: "a1 = emit (Request ''POST'' (API_BASE e @ ''/stories/generate'')
                        (ProfileBody (profileForApi p))) ?a0"
    using g generateAndSaveStory_snd [of e "profileForApi p" ?a0] by simp
  have fail: "fst (generateAndSaveStory e (profileForApi p) a) = Inl t \<Longrightarrow>
      handleWizardComplete e p a =
        (emit (ToastError (case t of Error m \<Rightarrow> m | Thrown \<Rightarrow> ''Generation failed'')) a1)
          \<lparr>view := ONBOARDING\<rparr>"
    using x by (simp add: handleWizardComplete_def generateStory_def g Let_def)
  have ok: "fst (generateAndSaveStory e (profileForApi p) a) = Inr r \<Longrightarrow>
      handleWizardComplete e p a =
        (setStory (mapApiStory (story_resp r)) (setSavedStoryId (id_story (story_resp r)) a1))
          \<lparr>view := STORYBOARD\<rparr>"
    using x by (simp add: handleWizardComplete_def generateStory_def g)
  show ?thesis
  proof (intro conjI impI)
    assume f: "fst (generateAndSaveStory e (profileForApi p) a) = Inl t"
    show "story (handleWizardComplete e p a) = story a"
      by (simp add: fail [OF f] a1 emit_def)
    show "savedStoryId (handleWizardComplete e p a) = savedStoryId a"
      by (simp add: fail [OF f] a1 emit_def)
    show "filter isSetStory (events (handleWizardComplete e p a)) = filter isSetStory (events a)"
      by (simp add: fail [OF f] a1 emit_def)
    show "filter isToast (events (handleWizardComplete e p a)) =
          filter isToast (events a) @
          [ToastError (case t of Error m \<Rightarrow> m | Thrown \<Rightarrow> ''Generation failed'')]"
      by (simp add: fail [OF f] a1 emit_def)
  next
    assume s: "fst (generateAndSaveStory e (profileForApi p) a) = Inr r"
    show "savedStoryId (handleWizardComplete e p a) = Some (id_story (story_resp r))"
      by (simp add: ok [OF s] setStory_def setSavedStoryId_def emit_def)
    show "story (handleWizardComplete e p a) = Some (mapApiStory (story_resp r))"
      by (simp add: ok [OF s] setStory_def setSavedStoryId_def emit_def)
    show "filter isToast (events (handleWizardComplete e p a)) = filter isToast (events a)"
      by (simp add: ok [OF s] a1 setStory_def setSavedStoryId_def emit_def)
  qed
qed

text \<open>
  Claim C4 at a server that refuses the generation and at one that answers with a story.
\<close>

theorem C4_generate_failure_witness:
  "fst (generateAndSaveStory envFail (profileForApi profile0) (appSaved 7))
     = Inl (Error ''quota exceeded'')
   \<and> story (handleWizardComplete envFail profile0 (appSaved 7)) = Some story3
   \<and> savedStoryId (handleWizardComplete envFail profile0 (appSaved 7)) = Some 7
   \<and> filter isToast (events (handleWizardComplete envFail profile0 (appSaved 7)))
       = [ToastError ''quota exceeded'']
   \<and> fst (generateAndSaveStory envOk (profileForApi profile0) (appSaved 7))
     = Inr \<lparr>story_resp = storyResp0\<rparr>
   \<and> savedStoryId (handleWizardComplete envOk profile0 (appSaved 7)) = Some 7
   \<and> story (handleWizardComplete envOk profile0 appEmpty) = Some (mapApiStory storyResp0)
   \<and> savedStoryId (handleWizardComplete envOk profile0 appEmpty) = Some 7
   \<and> filter isToast (events (handleWizardComplete envOk profile0 appEmpty)) = []"
proof -
  have f: "fst (generateAndSaveStory envFail (profileForApi profile0) (appSaved 7))
     = Inl (Error ''quota exceeded'')"
    by (simp add: generateAndSaveStory_def envFail_def or_else_def Let_def)
  have s: "fst (generateAndSaveStory envOk (profileForApi profile0) (appSaved 7))
     = Inr \<lparr>story_resp = storyResp0\<rparr>"
    by (simp add: generateAndSaveStory_def envOk_def Let_def)
  have s': "fst (generateAndSaveStory envOk (profileForApi profile0) appEmpty)
     = Inr \<lparr>story_resp = storyResp0\<rparr>"
    by (simp add: generateAndSaveStory_def envOk_def Let_def)
  have i: "id_story storyResp0 = 7" by (simp add: storyResp0_def)
  note fl = C4_generate_failure [of envFail profile0 "appSaved 7" "Error ''quota exceeded''",
      THEN conjunct1, rule_format, OF f]
  note ok = C4_generate_failure [of envOk profile0 "appSaved 7" _ "\<lparr>story_resp = storyResp0\<rparr>",
      THEN conjunct2, rule_format, OF s]
  note ok' = C4_generate_failure [of envOk profile0 appEmpty _ "\<lparr>story_resp = storyResp0\<rparr>",
      THEN conjunct2, rule_format, OF s']
  have a7: "story (appSaved 7) = Some story3" "savedStoryId (appSaved 7) = Some 7"
    "events (appSaved 7) = []"
    by (simp_all add: appSaved_def)
  have e0: "events appEmpty = []" by (simp add: appEmpty_def)
  show ?thesis using f s fl ok ok' i a7 e0 by simp
qed

section \<open>Editing a panel\<close>

text \<open>
  Claim C6. \<^verbatim>\<open>handleEdit\<close> on a panel without image, or with an empty edit
  instruction, returns at once: the state is unchanged and no request is sent. When
  \<^verbatim>\<open>editPanelImage\<close> throws, \<^verbatim>\<open>onUpdate\<close> is not called: the story of the store is
  unchanged, \<^verbatim>\<open>setStory\<close> is not called, and one error notification is shown.
\<close>

theorem C6_edit_rejected:
  "((imageUrl panel = None \<or> editPrompt l = []) \<longrightarrow>
      handleEdit e onUpdate panel charDesc prof (l, a) = (l, a)
      \<and> filter isRequest (events (snd (handleEdit e onUpdate panel charDesc prof (l, a))))
          = filter isRequest (events a))
   \<and> (truthy (imageUrl panel) \<and> editPrompt l \<noteq> []
       \<and> fst (editPanelImage e (or_else (resolvedImageUrl e panel) (the (imageUrl panel)))
                (editPrompt l) (imagePrompt panel) charDesc
                (case prof of None \<Rightarrow> None | Some p \<Rightarrow> artStyle p) a) = Inl t \<longrightarrow>
      story (snd (handleEdit e onUpdate panel charDesc prof (l, a))) = story a
      \<and> filter isSetStory (events (snd (handleEdit e onUpdate panel charDesc prof (l, a))))
          = filter isSetStory (events a)
      \<and> filter isToast (events (snd (handleEdit e onUpdate panel charDesc prof (l, a))))
          = filter isToast (events a) @ [ToastError ''Oops! Magic failed. Try again.''])"
proof (intro conjI impI)
  assume "imageUrl panel = None \<or> editPrompt l = []"
  then show r: "handleEdit e onUpdate panel charDesc prof (l, a) = (l, a)"
    by (auto simp: handleEdit_def truthy_def)
  show "filter isRequest (events (snd (handleEdit e onUpdate panel charDesc prof (l, a))))
          = filter isRequest (events a)"
    by (simp add: r)
next
  let ?src = "or_else (resolvedImageUrl e panel) (the (imageUrl panel))"
  let ?style = "case prof of None \<Rightarrow> None | Some p \<Rightarrow> artStyle p"
  let ?call = "editPanelImage e ?src (editPrompt l) (imagePrompt panel) charDesc ?style a"
  assume h: "truthy (imageUrl panel) \<and> editPrompt l \<noteq> [] \<and> fst ?call = Inl t"
  obtain a1 where c: "?call = (Inl t, a1)"
    using h by (cases ?call) simp
  have fr: "story a1 = story a"
    "filter isSetStory (events a1) = filter isSetStory (events a)"
    "filter isToast (events a1) = filter isToast (events a)"
    using editPanelImage_frame [of e ?src "editPrompt l" "imagePrompt panel" charDesc ?style a] c
    by simp_all
  have res: "snd (handleEdit e onUpdate panel charDesc prof (l, a)) =
      emit (ToastError ''Oops! Magic failed. Try again.'') (emit ConsoleError a1)"
    using h c by (simp add: handleEdit_def Let_def)
  show "story (snd (handleEdit e onUpdate panel charDesc prof (l, a))) = story a"
    by (simp add: res fr emit_def)
  show "filter isSetStory (events (snd (handleEdit e onUpdate panel charDesc prof (l, a))))
          = filter isSetStory (events a)"
    by (simp add: res fr emit_def)
  show "filter isToast (events (snd (handleEdit e onUpdate panel charDesc prof (l, a))))
          = filter isToast (events a) @ [ToastError ''Oops! Magic failed. Try again.'']"
    by (simp add: res fr emit_def)
qed

text \<open>
  Claim C6 at a panel without image, at an empty instruction, and at a server that rejects
  the edit.
\<close>

theorem C6_edit_rejected_witness:
  "imageUrl panelC = None
   \<and> handleEdit envOk (updatePanel envOk) panelC ''a girl'' (Some profile0) (editing, appSaved 7)
       = (editing, appSaved 7)
   \<and> editPrompt (editing\<lparr>editPrompt := []\<rparr>) = []
   \<and> handleEdit envOk (updatePanel envOk) panelB ''a girl'' (Some profile0)
        (editing\<lparr>editPrompt := []\<rparr>, appSaved 7)
       = (editing\<lparr>editPrompt := []\<rparr>, appSaved 7)
   \<and> truthy (imageUrl panelB) \<and> editPrompt editing \<noteq> []
   \<and> fst (editPanelImage envFail ''data:image/png;base64,AAAA'' ''add a dragon'' ''a hill''
            ''a girl'' None (appSaved 7)) = Inl (Error ''Failed to fetch'')
   \<and> story (snd (handleEdit envFail (updatePanel envFail) panelB ''a girl'' (Some profile0)
                   (editing, appSaved 7))) = Some story3
   \<and> filter isToast (events (snd (handleEdit envFail (updatePanel envFail) panelB ''a girl''
                   (Some profile0) (editing, appSaved 7))))
       = [ToastError ''Oops! Magic failed. Try again.'']"
proof -
  have h1: "imageUrl panelC = None" by (simp add: panelC_def)
  have h2: "editPrompt (editing\<lparr>editPrompt := []\<rparr>) = []" by simp
  have h3: "truthy (imageUrl panelB)" by (simp add: panelB_def truthy_def)
  have h4: "editPrompt editing \<noteq> []" by (simp add: editing_def)
  have src: "or_else (resolvedImageUrl envFail panelB) (the (imageUrl panelB))
      = ''data:image/png;base64,AAAA''"
    by (simp add: resolvedImageUrl_def panelB_def truthy_def startsWith_def or_else_def)
  have args: "editPrompt editing = ''add a dragon''" "imagePrompt panelB = ''a hill''"
    "artStyle profile0 = None"
    by (simp_all add: editing_def panelB_def profile0_def)
  have f: "fst (editPanelImage envFail ''data:image/png;base64,AAAA'' ''add a dragon'' ''a hill''
            ''a girl'' None (appSaved 7)) = Inl (Error ''Failed to fetch'')"
    by (simp add: editPanelImage_def pureBase64_def startsWith_def envFail_def Let_def)
  have h5: "truthy (imageUrl panelB) \<and> editPrompt editing \<noteq> []
       \<and> fst (editPanelImage envFail (or_else (resolvedImageUrl envFail panelB) (the (imageUrl panelB)))
                (editPrompt editing) (imagePrompt panelB) ''a girl''
                (case Some profile0 of None \<Rightarrow> None | Some p \<Rightarrow> artStyle p) (appSaved 7))
           = Inl (Error ''Failed to fetch'')"
    using h3 h4 f by (simp add: src args)
  note r1 = C6_edit_rejected [of panelC editing envOk "updatePanel envOk" "''a girl''"
      "Some profile0" "appSaved 7", THEN conjunct1, rule_format, OF disjI1, OF h1]
  note r2 = C6_edit_rejected [of panelB "editing\<lparr>editPrompt := []\<rparr>" envOk "updatePanel envOk"
      "''a girl''" "Some profile0" "appSaved 7", THEN conjunct1, rule_format, OF disjI2, OF h2]
  note r3 = C6_edit_rejected [of panelB editing envFail "updatePanel envFail" "''a girl''"
      "Some profile0" "appSaved 7" "Error ''Failed to fetch''", THEN conjunct2, rule_format, OF h5]
  have a7: "story (appSaved 7) = Some story3" "events (appSaved 7) = []"
    by (simp_all add: appSaved_def)
  show ?thesis using h1 h2 h3 h4 f r1 r2 r3 a7 by simp
qed

end
